theory Spec2Isabelle
  imports Main
begin

section \<open>The logger of toolbox/sys/Logger.hpp\<close>

text \<open>
  A shallow embedding of the logging front end declared in
  \<^verbatim>\<open>toolbox/sys/Logger.hpp\<close>: the level enumeration, the level gate, the global
  logger slot, the dispatch to the installed logger and the scoped override.
  The header defines \<^verbatim>\<open>is_log_level\<close>, \<^verbatim>\<open>set_logger(nullptr)\<close>,
  \<^verbatim>\<open>Logger::write_log\<close>, \<^verbatim>\<open>ScopedLogger\<close> and the stream inserter inline;
  every other function is only declared there, and its model below says so.
  The model is sequential: one thread, no interleaving writers.
\<close>

subsection \<open>Log levels\<close>

text \<open>\<^verbatim>\<open>enum class LogLevel : int { Crit, Error, Warning, Notice, Info, Debug }\<close>\<close>

datatype LogLevel = Crit | Error | Warning | Notice | Info | Debug

text \<open>
  The underlying value of an enumerator (\<^verbatim>\<open>static_cast<int>\<close>): none has an
  initialiser, so they count from zero in the order of declaration. The built-in
  relational operators on a scoped enumeration compare these values.
\<close>

primrec to_int :: "LogLevel \<Rightarrow> int" where
  "to_int Crit = 0"
| "to_int Error = 1"
| "to_int Warning = 2"
| "to_int Notice = 3"
| "to_int Info = 4"
| "to_int Debug = 5"

text \<open>
  The specification's reading of the order: the levels listed from most to least
  severe, a level's ordinal being its place in that list.
\<close>

definition severity_order :: "LogLevel list" where
  "severity_order = [Crit, Error, Warning, Notice, Info, Debug]"

primrec place :: "'a \<Rightarrow> 'a list \<Rightarrow> nat" where
  "place x [] = 0"
| "place x (y # ys) = (if x = y then 0 else Suc (place x ys))"

definition ordinal :: "LogLevel \<Rightarrow> nat" where
  "ordinal level = place level severity_order"

subsection \<open>Loggers and the process-wide state\<close>

text \<open>
  A \<^verbatim>\<open>Logger&\<close> is a reference to an object of a class derived from the abstract
  \<^verbatim>\<open>Logger\<close>. The three singletons the header declares are told apart from any
  other logger object, which is identified by a number (its address).
\<close>

datatype Logger = null_logger | std_logger | sys_logger | user_logger nat

datatype Stream = Stdout | Stderr

text \<open>
  The state the functions of the header read and write: the two globals (the current
  level and the current logger) and what the loggers have output so far: the bytes on
  the two standard streams, the records handed to \<^verbatim>\<open>syslog\<close>, and the calls
  received by loggers defined outside the header.
\<close>

record State =
  cur_level :: LogLevel
  cur_logger :: Logger
  stdout_bytes :: string
  stderr_bytes :: string
  syslog_records :: "(LogLevel \<times> string) list"
  received :: "(nat \<times> LogLevel \<times> string \<times> nat) list"

subsection \<open>The level and its gate\<close>

text \<open>
  Modelled from the spec: \<^verbatim>\<open>get_log_level\<close> is declared in the header
  (``Return current log level'') and defined elsewhere; the specification has it
  read the current minimum level.
\<close>

definition get_log_level :: "State \<Rightarrow> LogLevel" where
  "get_log_level s = cur_level s"

text \<open>
  Modelled from the spec: \<^verbatim>\<open>set_log_level\<close> is declared in the header
  (``Set log level globally for all threads'') and defined elsewhere; the
  specification has it replace the current minimum level and return the previous one.
\<close>

definition set_log_level :: "LogLevel \<Rightarrow> State \<Rightarrow> LogLevel \<times> State" where
  "set_log_level level s = (cur_level s, s\<lparr>cur_level := level\<rparr>)"

text \<open>
  \<^verbatim>\<open>inline bool is_log_level(LogLevel level) noexcept { return level <= get_log_level(); }\<close>
\<close>

definition is_log_level :: "State \<Rightarrow> LogLevel \<Rightarrow> bool" where
  "is_log_level s level = (to_int level \<le> to_int (get_log_level s))"

text \<open>
  Modelled from the spec: \<^verbatim>\<open>log_label\<close> is declared in the header (``Return log
  label for given log level'') and defined elsewhere; the labels are the fixed short
  words the specification lists for the six levels.
\<close>

primrec log_label :: "LogLevel \<Rightarrow> string" where
  "log_label Crit = ''CRIT''"
| "log_label Error = ''ERROR''"
| "log_label Warning = ''WARN''"
| "log_label Notice = ''NOTICE''"
| "log_label Info = ''INFO''"
| "log_label Debug = ''DEBUG''"

subsection \<open>The logger slot\<close>

text \<open>
  Modelled from the spec: \<^verbatim>\<open>get_logger\<close> is declared in the header (``Return
  current logger'') and defined elsewhere; the specification has it return the
  currently installed logger.
\<close>

definition get_logger :: "State \<Rightarrow> Logger" where
  "get_logger s = cur_logger s"

text \<open>
  Modelled from the spec: \<^verbatim>\<open>set_logger(Logger&)\<close> is declared in the header
  (``Set logger globally for all threads'') and defined elsewhere; the specification
  has it install the new logger and return the previous one.
\<close>

definition set_logger :: "Logger \<Rightarrow> State \<Rightarrow> Logger \<times> State" where
  "set_logger logger s = (cur_logger s, s\<lparr>cur_logger := logger\<rparr>)"

text \<open>
  \<^verbatim>\<open>inline Logger& set_logger(std::nullptr_t) noexcept { return set_logger(null_logger()); }\<close>
\<close>

definition set_logger_nullptr :: "State \<Rightarrow> Logger \<times> State" where
  "set_logger_nullptr s = set_logger null_logger s"

subsection \<open>Writing a message\<close>

text \<open>
  A message is the buffer a \<^verbatim>\<open>LogMsgPtr\<close> owns, as its bytes, together with the
  number \<open>sz\<close> of bytes used (the argument \<^verbatim>\<open>size\<close>, at most the length of the
  buffer); a logger looks at the first \<open>sz\<close> bytes. Ownership of the buffer is not
  modelled.
\<close>

definition write_stream :: "Stream \<Rightarrow> string \<Rightarrow> State \<Rightarrow> State" where
  "write_stream fd bytes s =
     (case fd of
        Stdout \<Rightarrow> s\<lparr>stdout_bytes := stdout_bytes s @ bytes\<rparr>
      | Stderr \<Rightarrow> s\<lparr>stderr_bytes := stderr_bytes s @ bytes\<rparr>)"

text \<open>
  Modelled from the spec: the stream the standard logger writes a message to. The
  logger's implementation is not in the header. The specification sends a message
  whose level is strictly more severe than \<open>Warning\<close> to the error stream and every
  other message to the standard output stream. (The comment on the declaration,
  ``This logger writes to stdout if the log level is greater than LogWarn, and stdout
  otherwise'', names one stream for both of its cases and does not settle the
  routing.)
\<close>

definition std_stream :: "LogLevel \<Rightarrow> Stream" where
  "std_stream level = (if to_int level < to_int Warning then Stderr else Stdout)"

text \<open>
  Modelled from the spec: the loggers' implementations of the pure virtual
  \<^verbatim>\<open>do_write_log\<close> are not in the header. The null logger does nothing; the standard
  logger writes the label, then the message bytes, then a line terminator to the
  stream chosen by \<^const>\<open>std_stream\<close>; the system logger hands the level and the
  message to the system log. A logger defined outside the header is opaque: the call
  it receives is recorded with its arguments, and it is taken not to touch the level
  or the logger slot.
\<close>

primrec do_write_log ::
  "Logger \<Rightarrow> LogLevel \<Rightarrow> string \<Rightarrow> nat \<Rightarrow> State \<Rightarrow> State" where
  "do_write_log null_logger level msg sz s = s"
| "do_write_log std_logger level msg sz s =
     write_stream (std_stream level)
       (log_label level @ take sz msg @ [CHR 0x0A]) s"
| "do_write_log sys_logger level msg sz s =
     s\<lparr>syslog_records := syslog_records s @ [(level, take sz msg)]\<rparr>"
| "do_write_log (user_logger n) level msg sz s =
     s\<lparr>received := received s @ [(n, level, msg, sz)]\<rparr>"

text \<open>
  \<^verbatim>\<open>void Logger::write_log(LogLevel level, LogMsgPtr&& msg, std::size_t size) noexcept
  { do_write_log(level, std::move(msg), size); }\<close>: the virtual call on \<^verbatim>\<open>this\<close>.
\<close>

definition Logger_write_log ::
  "Logger \<Rightarrow> LogLevel \<Rightarrow> string \<Rightarrow> nat \<Rightarrow> State \<Rightarrow> State" where
  "Logger_write_log this level msg sz s = do_write_log this level msg sz s"

text \<open>
  Modelled from the spec: the free function \<^verbatim>\<open>write_log\<close> is declared in the header
  (``Unconditionally write log message to the logger. Specifically, this function does
  not check that level is allowed by the current log level'') and defined elsewhere;
  the specification has it forward its arguments to the current logger.
\<close>

definition write_log :: "LogLevel \<Rightarrow> string \<Rightarrow> nat \<Rightarrow> State \<Rightarrow> State" where
  "write_log level msg sz s = Logger_write_log (get_logger s) level msg sz s"

text \<open>A sequence of \<^verbatim>\<open>write_log\<close> calls, each with its level, message and size.\<close>

primrec write_logs :: "(LogLevel \<times> string \<times> nat) list \<Rightarrow> State \<Rightarrow> State" where
  "write_logs [] s = s"
| "write_logs (e # es) s =
     write_logs es (write_log (fst e) (fst (snd e)) (snd (snd e)) s)"

subsection \<open>The scoped logger\<close>

text \<open>
  \<^verbatim>\<open>class ScopedLogger\<close> has one member, \<^verbatim>\<open>Logger& prev_\<close>. Its constructor is
  \<^verbatim>\<open>explicit ScopedLogger(Logger& logger) noexcept : prev_{set_logger(logger)} {}\<close>
  and its destructor \<^verbatim>\<open>~ScopedLogger() { set_logger(prev_); }\<close>. It can be neither
  copied nor moved.
\<close>

record ScopedLogger =
  prev :: Logger

definition ScopedLogger_ctor :: "Logger \<Rightarrow> State \<Rightarrow> ScopedLogger \<times> State" where
  "ScopedLogger_ctor logger s =
     (case set_logger logger s of (p, s') \<Rightarrow> (\<lparr>prev = p\<rparr>, s'))"

definition ScopedLogger_dtor :: "ScopedLogger \<Rightarrow> State \<Rightarrow> State" where
  "ScopedLogger_dtor this s = snd (set_logger (prev this) s)"

text \<open>
  How control leaves a block: by falling through its end, by a \<^verbatim>\<open>return\<close>
  statement, or by an exception that propagates out of it.
\<close>

datatype 'a Exit = Fallthrough | Return 'a | Throw string

text \<open>
  The block \<^verbatim>\<open>{ ScopedLogger guard{logger}; body }\<close>. The constructor cannot throw.
  The guard is an automatic object, so its destructor runs when control leaves the
  block, whichever way the body ended, and the way the body ended is the way the
  block ends.
\<close>

definition scoped :: "Logger \<Rightarrow> (State \<Rightarrow> 'a Exit \<times> State) \<Rightarrow> State \<Rightarrow> 'a Exit \<times> State" where
  "scoped logger body s =
     (case ScopedLogger_ctor logger s of (guard, s1) \<Rightarrow>
        (case body s1 of (exit, s2) \<Rightarrow> (exit, ScopedLogger_dtor guard s2)))"

text \<open>
  Two nested blocks,
  \<^verbatim>\<open>{ ScopedLogger outer{c}; { ScopedLogger inner{b}; f } g }\<close>,
  with the states at four points: after the outer constructor, after the inner
  constructor, after the inner destructor and after the outer destructor. \<open>f\<close> is
  whatever runs inside the inner block and \<open>g\<close> whatever runs in the outer block
  after the inner one has been left (nothing, when the inner block was left by an
  exception or a return).
\<close>

definition nested ::
  "Logger \<Rightarrow> Logger \<Rightarrow> (State \<Rightarrow> State) \<Rightarrow> (State \<Rightarrow> State) \<Rightarrow> State
     \<Rightarrow> State \<times> State \<times> State \<times> State" where
  "nested c b f g s =
     (case ScopedLogger_ctor c s of (outer, s1) \<Rightarrow>
        (case ScopedLogger_ctor b s1 of (inner, s2) \<Rightarrow>
           (let s3 = ScopedLogger_dtor inner (f s2);
                s4 = ScopedLogger_dtor outer (g s3)
            in (s1, s2, s3, s4))))"

subsection \<open>Calls of the interface\<close>

text \<open>
  The functions of the header as calls a client can make one after the other, and
  the state each call leaves (the value it returns is dropped).
\<close>

datatype Call =
    Get_log_level
  | Is_log_level LogLevel
  | Set_log_level LogLevel
  | Get_logger
  | Set_logger Logger
  | Set_logger_nullptr
  | Write_log LogLevel string nat

primrec call :: "Call \<Rightarrow> State \<Rightarrow> State" where
  "call Get_log_level s = s"
| "call (Is_log_level level) s = s"
| "call (Set_log_level level) s = snd (set_log_level level s)"
| "call Get_logger s = s"
| "call (Set_logger logger) s = snd (set_logger logger s)"
| "call Set_logger_nullptr s = snd (set_logger_nullptr s)"
| "call (Write_log level msg sz) s = write_log level msg sz s"

primrec is_Set_log_level :: "Call \<Rightarrow> bool" where
  "is_Set_log_level Get_log_level = False"
| "is_Set_log_level (Is_log_level level) = False"
| "is_Set_log_level (Set_log_level level) = True"
| "is_Set_log_level Get_logger = False"
| "is_Set_log_level (Set_logger logger) = False"
| "is_Set_log_level Set_logger_nullptr = False"
| "is_Set_log_level (Write_log level msg sz) = False"

primrec calls :: "Call list \<Rightarrow> State \<Rightarrow> State" where
  "calls [] s = s"
| "calls (c # cs) s = calls cs (call c s)"

subsection \<open>The stream inserter\<close>




section \<open>Properties\<close>

subsection \<open>The gate\<close>

lemma ordinal_to_int: "int (ordinal level) = to_int level"
  by (cases level) (simp_all add: ordinal_def severity_order_def)

text \<open>
  Claim C1. For every level \<open>L\<close>, the gate \<^verbatim>\<open>is_log_level(L)\<close> is true exactly
  when the ordinal of \<open>L\<close> is less than or equal to the ordinal of the current
  minimum level, where the ordinals follow the enumeration order
  Crit < Error < Warning < Notice < Info < Debug (a lower ordinal is more severe).
\<close>

theorem is_log_level_iff_ordinal:
  "is_log_level s L = (ordinal L \<le> ordinal (get_log_level s))
   \<and> ordinal Crit < ordinal Error \<and> ordinal Error < ordinal Warning
   \<and> ordinal Warning < ordinal Notice \<and> ordinal Notice < ordinal Info
   \<and> ordinal Info < ordinal Debug"
proof -
  have "is_log_level s L = (int (ordinal L) \<le> int (ordinal (get_log_level s)))"
    by (simp only: is_log_level_def ordinal_to_int)
  moreover have "ordinal Crit < ordinal Error \<and> ordinal Error < ordinal Warning
      \<and> ordinal Warning < ordinal Notice \<and> ordinal Notice < ordinal Info
      \<and> ordinal Info < ordinal Debug"
    by (simp add: ordinal_def severity_order_def)
  ultimately show ?thesis by simp
qed

text \<open>
  Claim C7. The gate is monotone: for a fixed current minimum level and levels
  \<open>L1\<close>, \<open>L2\<close> with \<open>L1\<close> more severe than \<open>L2\<close> (the ordinal of \<open>L1\<close> is less than
  that of \<open>L2\<close>), if \<^verbatim>\<open>is_log_level(L2)\<close> is true then so is \<^verbatim>\<open>is_log_level(L1)\<close>.
\<close>

theorem is_log_level_mono:
  assumes "ordinal L1 < ordinal L2" and "is_log_level s L2"
  shows "is_log_level s L1"
proof -
  from assms(1) have "to_int L1 < to_int L2"
    by (simp only: ordinal_to_int [symmetric] of_nat_less_iff)
  with assms(2) show ?thesis
    by (simp add: is_log_level_def)
qed

theorem is_log_level_mono_witness:
  "ordinal Error < ordinal Notice
   \<and> is_log_level \<lparr>cur_level = Info, cur_logger = null_logger, stdout_bytes = [],
        stderr_bytes = [], syslog_records = [], received = []\<rparr> Notice
   \<and> is_log_level \<lparr>cur_level = Info, cur_logger = null_logger, stdout_bytes = [],
        stderr_bytes = [], syslog_records = [], received = []\<rparr> Error"
proof -
  let ?s = "\<lparr>cur_level = Info, cur_logger = null_logger, stdout_bytes = [],
        stderr_bytes = [], syslog_records = [], received = []\<rparr>"
  have h1: "ordinal Error < ordinal Notice"
    by (simp add: ordinal_def severity_order_def)
  have h2: "is_log_level ?s Notice"
    by (simp add: is_log_level_def get_log_level_def)
  from h1 h2 is_log_level_mono [OF h1 h2] show ?thesis by simp
qed

subsection \<open>The logger slot\<close>

text \<open>
  Claim C5. \<^verbatim>\<open>set_logger(B)\<close> installs \<open>B\<close> as the current logger and returns the
  logger that was current just before the call; calling \<^verbatim>\<open>set_logger\<close> again with
  the returned logger brings back the state before the first call, so everything
  observable is as it was.
\<close>

theorem set_logger_round_trip:
  "fst (set_logger B s) = get_logger s
   \<and> get_logger (snd (set_logger B s)) = B
   \<and> snd (set_logger (fst (set_logger B s)) (snd (set_logger B s))) = s"
  by (simp add: set_logger_def get_logger_def)

lemma do_write_log_null: "do_write_log null_logger level msg sz s = s"
  by simp

lemma write_log_null:
  "get_logger s = null_logger \<Longrightarrow> write_log level msg sz s = s"
  by (simp add: write_log_def Logger_write_log_def)

lemma write_logs_null:
  "get_logger s = null_logger \<Longrightarrow> write_logs es s = s"
  by (induction es) (simp_all add: write_log_null)

text \<open>
  Claim C6. \<^verbatim>\<open>set_logger(nullptr)\<close> is \<^verbatim>\<open>set_logger(null_logger())\<close>: it returns
  the logger installed before, it leaves the null logger installed, and after it any
  number of \<^verbatim>\<open>write_log\<close> calls, at any levels, change nothing: no byte reaches a
  stream, no record the system log and no call another logger.
\<close>

theorem set_logger_nullptr_discards:
  "set_logger_nullptr s = set_logger null_logger s
   \<and> fst (set_logger_nullptr s) = get_logger s
   \<and> get_logger (snd (set_logger_nullptr s)) = null_logger
   \<and> write_logs es (snd (set_logger_nullptr s)) = snd (set_logger_nullptr s)"
proof -
  have installed: "get_logger (snd (set_logger_nullptr s)) = null_logger"
    by (simp add: set_logger_nullptr_def set_logger_def get_logger_def)
  have "fst (set_logger_nullptr s) = get_logger s"
    by (simp add: set_logger_nullptr_def set_logger_def get_logger_def)
  moreover have "set_logger_nullptr s = set_logger null_logger s"
    by (rule set_logger_nullptr_def)
  moreover note installed write_logs_null [OF installed]
  ultimately show ?thesis by simp
qed

subsection \<open>The scoped logger\<close>

lemma ctor_installs: "get_logger (snd (ScopedLogger_ctor B s)) = B"
  by (simp add: ScopedLogger_ctor_def set_logger_def get_logger_def)

lemma ctor_captures: "prev (fst (ScopedLogger_ctor B s)) = get_logger s"
  by (simp add: ScopedLogger_ctor_def set_logger_def get_logger_def)

lemma dtor_restores: "get_logger (ScopedLogger_dtor guard s) = prev guard"
  by (simp add: ScopedLogger_dtor_def set_logger_def get_logger_def)

text \<open>
  Claim C3. With logger \<open>A\<close> current, constructing a \<^verbatim>\<open>ScopedLogger\<close> with \<open>B\<close>
  makes \<open>B\<close> current, the body of the block runs in that state, and when the block
  is left, by falling through, by a return or by an exception, whatever the body
  did, \<open>A\<close> is current again.
\<close>

theorem scoped_logger_round_trip:
  "get_logger (snd (ScopedLogger_ctor B s)) = B
   \<and> fst (scoped B body s) = fst (body (snd (ScopedLogger_ctor B s)))
   \<and> get_logger (snd (scoped B body s)) = get_logger s"
proof -
  obtain guard s1 where c: "ScopedLogger_ctor B s = (guard, s1)"
    by (cases "ScopedLogger_ctor B s")
  obtain exit s2 where b: "body s1 = (exit, s2)"
    by (cases "body s1")
  from c have g: "prev guard = get_logger s" and s1: "get_logger s1 = B"
    using ctor_captures [of B s] ctor_installs [of B s] by simp_all
  have "scoped B body s = (exit, ScopedLogger_dtor guard s2)"
    by (simp add: scoped_def c b)
  with c b g s1 show ?thesis
    by (simp add: dtor_restores)
qed

text \<open>
  Claim C4. Scoped loggers nest last in, first out: with \<open>A\<close> current at the start,
  entering a block that installs \<open>C\<close> and inside it a block that installs \<open>B\<close>, then
  leaving them in reverse order, \<open>C\<close> is current after the outer constructor, \<open>B\<close>
  after the inner one, \<open>C\<close> again after the inner block is left and \<open>A\<close> again after
  the outer block is left, whatever ran inside the blocks.
\<close>

theorem scoped_logger_nesting:
  "(case nested C B f g s of (s1, s2, s3, s4) \<Rightarrow>
      get_logger s1 = C \<and> get_logger s2 = B \<and> get_logger s3 = C
      \<and> get_logger s4 = get_logger s)"
proof -
  obtain outer s1 where o: "ScopedLogger_ctor C s = (outer, s1)"
    by (cases "ScopedLogger_ctor C s")
  obtain inner s2 where i: "ScopedLogger_ctor B s1 = (inner, s2)"
    by (cases "ScopedLogger_ctor B s1")
  from o have s1: "get_logger s1 = C" and po: "prev outer = get_logger s"
    using ctor_installs [of C s] ctor_captures [of C s] by simp_all
  from i have s2: "get_logger s2 = B" and pi: "prev inner = get_logger s1"
    using ctor_installs [of B s1] ctor_captures [of B s1] by simp_all
  show ?thesis
    by (simp add: nested_def o i Let_def dtor_restores s1 s2 po pi)
qed

subsection \<open>Writing a message\<close>

lemma write_stream_globals:
  "cur_level (write_stream fd bytes s) = cur_level s"
  "cur_logger (write_stream fd bytes s) = cur_logger s"
  by (cases fd; simp add: write_stream_def)+

lemma do_write_log_globals:
  "cur_level (do_write_log logger level msg sz s) = cur_level s"
  "cur_logger (do_write_log logger level msg sz s) = cur_logger s"
  by (cases logger; simp add: write_stream_globals)+





subsection \<open>The level\<close>

lemma call_keeps_level:
  "\<not> is_Set_log_level c \<Longrightarrow> cur_level (call c s) = cur_level s"
  by (cases c)
     (simp_all add: set_logger_def set_logger_nullptr_def write_log_def
        Logger_write_log_def do_write_log_globals)

lemma calls_keep_level:
  "\<forall>c \<in> set cs. \<not> is_Set_log_level c \<Longrightarrow> cur_level (calls cs s) = cur_level s"
  by (induction cs arbitrary: s) (simp_all add: call_keeps_level)

text \<open>
  Claim C8. \<^verbatim>\<open>set_log_level(L)\<close> replaces the current level and returns the level
  it replaced; after it \<^verbatim>\<open>get_log_level()\<close> returns \<open>L\<close>, and still does after any
  sequence of calls of the interface none of which is \<^verbatim>\<open>set_log_level\<close>.
\<close>

theorem set_log_level_until_next:
  assumes "\<forall>c \<in> set cs. \<not> is_Set_log_level c"
  shows "fst (set_log_level L s) = get_log_level s
   \<and> get_log_level (snd (set_log_level L s)) = L
   \<and> get_log_level (calls cs (snd (set_log_level L s))) = L"
  using calls_keep_level [OF assms, of "snd (set_log_level L s)"]
  by (simp add: set_log_level_def get_log_level_def)

theorem set_log_level_until_next_witness:
  "fst (set_log_level Debug \<lparr>cur_level = Info, cur_logger = null_logger,
        stdout_bytes = [], stderr_bytes = [], syslog_records = [], received = []\<rparr>) = Info
   \<and> get_log_level (calls
        [Is_log_level Debug, Set_logger std_logger, Write_log Error ''disk'' 4,
         Set_logger_nullptr, Get_log_level]
        (snd (set_log_level Debug \<lparr>cur_level = Info, cur_logger = null_logger,
           stdout_bytes = [], stderr_bytes = [], syslog_records = [], received = []\<rparr>)))
       = Debug"
proof -
  let ?cs = "[Is_log_level Debug, Set_logger std_logger, Write_log Error ''disk'' 4,
        Set_logger_nullptr, Get_log_level]"
  let ?s = "\<lparr>cur_level = Info, cur_logger = null_logger,
        stdout_bytes = [], stderr_bytes = [], syslog_records = [], received = []\<rparr>"
  have h: "\<forall>c \<in> set ?cs. \<not> is_Set_log_level c" by simp
  from set_log_level_until_next [OF h, of Debug ?s]
  have "fst (set_log_level Debug ?s) = get_log_level ?s
      \<and> get_log_level (calls ?cs (snd (set_log_level Debug ?s))) = Debug"
    by simp
  moreover have "get_log_level ?s = Info" by (simp add: get_log_level_def)
  ultimately show ?thesis by simp
qed

subsection \<open>The standard logger\<close>

text \<open>
  Claim C9. The standard logger writes the label of the level, then the message
  bytes, then a line terminator: to the error stream when the level is strictly more
  severe than \<open>Warning\<close>, and to the standard output stream for every other level;
  the stream it does not choose and the rest of the state stay as they were.
\<close>

theorem std_logger_routing:
  "(ordinal level < ordinal Warning \<longrightarrow>
      do_write_log std_logger level msg sz s
        = s\<lparr>stderr_bytes := stderr_bytes s @ log_label level @ take sz msg @ [CHR 0x0A]\<rparr>)
   \<and> (\<not> ordinal level < ordinal Warning \<longrightarrow>
      do_write_log std_logger level msg sz s
        = s\<lparr>stdout_bytes := stdout_bytes s @ log_label level @ take sz msg @ [CHR 0x0A]\<rparr>)"
proof -
  have "(ordinal level < ordinal Warning) = (to_int level < to_int Warning)"
    by (simp only: ordinal_to_int [symmetric] of_nat_less_iff)
  then show ?thesis
    by (simp add: std_stream_def write_stream_def)
qed

theorem std_logger_routing_witness:
  "do_write_log std_logger Error ''down'' 4
      \<lparr>cur_level = Info, cur_logger = std_logger, stdout_bytes = [], stderr_bytes = [],
        syslog_records = [], received = []\<rparr>
     = \<lparr>cur_level = Info, cur_logger = std_logger, stdout_bytes = [],
        stderr_bytes = ''ERRORdown'' @ [CHR 0x0A], syslog_records = [], received = []\<rparr>
   \<and> do_write_log std_logger Warning ''low disk'' 3
      \<lparr>cur_level = Info, cur_logger = std_logger, stdout_bytes = [], stderr_bytes = [],
        syslog_records = [], received = []\<rparr>
     = \<lparr>cur_level = Info, cur_logger = std_logger,
        stdout_bytes = ''WARNlow'' @ [CHR 0x0A], stderr_bytes = [],
        syslog_records = [], received = []\<rparr>"
proof -
  let ?s = "\<lparr>cur_level = Info, cur_logger = std_logger, stdout_bytes = [],
        stderr_bytes = [], syslog_records = [], received = []\<rparr>"
  have more: "ordinal Error < ordinal Warning"
    by (simp add: ordinal_def severity_order_def)
  have not_more: "\<not> ordinal Warning < ordinal Warning"
    by simp
  from std_logger_routing [of Error "''down''" 4 ?s] more
  have e: "do_write_log std_logger Error ''down'' 4 ?s
      = ?s\<lparr>stderr_bytes := stderr_bytes ?s @ log_label Error @ take 4 ''down'' @ [CHR 0x0A]\<rparr>"
    by blast
  from std_logger_routing [of Warning "''low disk''" 3 ?s] not_more
  have w: "do_write_log std_logger Warning ''low disk'' 3 ?s
      = ?s\<lparr>stdout_bytes := stdout_bytes ?s @ log_label Warning @ take 3 ''low disk'' @ [CHR 0x0A]\<rparr>"
    by blast
  show ?thesis
    by (simp only: e w) simp
qed

subsection \<open>The stream inserter\<close>








end
